theory Spec2Isabelle
  imports Main "HOL-Library.AList" "HOL-Library.Multiset"
begin

section \<open>Server: the WebSocket manager of backend/utils/websocket.js\<close>

subsection \<open>Strings and values\<close>

text \<open>
  A JavaScript string is a sequence of UTF-16 code units and \<open>length\<close> counts them.
  A \<^typ>\<open>char\<close> stands for one code unit below 256. \<open>String.prototype.trim\<close> removes
  white space and line terminators from both ends; below 256 these are U+0009 to
  U+000D, U+0020 and U+00A0.
\<close>

definition is_space :: "char \<Rightarrow> bool" where
  "is_space c = ((of_char c :: nat) \<in> {9, 10, 11, 12, 13, 32, 160})"

definition trim :: "string \<Rightarrow> string" where
  "trim s = rev (dropWhile is_space (rev (dropWhile is_space s)))"

text \<open>\<open>xs.slice(-n)\<close>: the last \<open>n\<close> elements, the whole array when it is shorter.\<close>

definition slice_last :: "nat \<Rightarrow> 'a list \<Rightarrow> 'a list" where
  "slice_last n xs = drop (length xs - n) xs"

text \<open>
  \<open>a || b\<close> on a field that is a string or absent: the empty string and
  \<open>undefined\<close>/\<open>null\<close> are falsy.
\<close>

definition or_else :: "string option \<Rightarrow> string \<Rightarrow> string" where
  "or_else a b = (case a of None \<Rightarrow> b | Some u \<Rightarrow> if u = [] then b else u)"

text \<open>
  The \<open>message\<close> field of a parsed frame is whatever \<open>JSON.parse\<close> gave:
  \<open>JNull\<close> is a missing field or \<open>null\<close>, \<open>JObject\<close> an object or an array. A
  number with a fraction behaves as any non-zero \<open>JNum\<close>.
\<close>

datatype jsval = JNull | JBool bool | JNum int | JStr string | JObject

fun truthy :: "jsval \<Rightarrow> bool" where
  "truthy JNull = False"
| "truthy (JBool b) = b"
| "truthy (JNum n) = (n \<noteq> 0)"
| "truthy (JStr u) = (u \<noteq> [])"
| "truthy JObject = True"

text \<open>
  \<open>message.trim()\<close> on a truthy value: only a string has the method, on anything else
  the call throws a \<open>TypeError\<close>, which is \<open>None\<close> here.
\<close>

fun js_trim :: "jsval \<Rightarrow> string option" where
  "js_trim (JStr u) = Some (trim u)"
| "js_trim _ = None"

text \<open>The string itself, read only once \<open>trim\<close> has succeeded.\<close>

fun js_string :: "jsval \<Rightarrow> string" where
  "js_string (JStr u) = u"
| "js_string _ = []"

subsection \<open>Data\<close>

type_synonym conn = nat

text \<open>The object \<open>{username, message, timestamp}\<close>; a \<open>Date\<close> is its milliseconds.\<close>

record chat_message =
  username :: string
  message :: string
  timestamp :: nat

text \<open>
  The events of the wire protocol. \<open>Message\<close> carries username, message and timestamp.
\<close>

datatype event =
    Connection string
  | History "chat_message list"
  | Message string string nat
  | System string nat
  | Error string

text \<open>
  \<open>clientInfo\<close>: the fields \<open>ws\<close> (the key of the entry) and \<open>id\<close> (never read) are
  left out.
\<close>

record clientInfo =
  c_username :: string
  connectedAt :: nat

text \<open>
  \<open>this.clients\<close> is a JavaScript \<open>Map\<close>: keys are unique and iteration follows
  insertion order, so it is an association list handled with \<open>map_of\<close>,
  \<open>AList.update\<close> and \<open>AList.delete\<close>. A socket is connected once, so it has one
  \<open>clientInfo\<close> object. \<open>detached\<close> holds the objects of the entries deleted from the
  map: a join handler suspended at its \<open>await\<close> still holds its object and reads the
  name from it (line 141).
\<close>

record manager =
  clients :: "(conn \<times> clientInfo) list"
  messageHistory :: "chat_message list"
  detached :: "(conn \<times> clientInfo) list"


text \<open>The \<open>clientInfo\<close> object made for a socket, in the map or deleted from it.\<close>

definition clientInfo_of :: "manager \<Rightarrow> conn \<Rightarrow> clientInfo option" where
  "clientInfo_of s ws =
     (case map_of (clients s) ws of Some ci \<Rightarrow> Some ci | None \<Rightarrow> map_of (detached s) ws)"

text \<open>\<open>this.clients.delete(ws)\<close> for the entry \<open>(ws, ci)\<close>.\<close>

definition clients_delete :: "conn \<Rightarrow> clientInfo \<Rightarrow> manager \<Rightarrow> manager" where
  "clients_delete ws ci s =
     s\<lparr>clients := AList.delete ws (clients s), detached := AList.update ws ci (detached s)\<rparr>"


text \<open>
  What a handler reads from outside the manager while it runs: the clock (\<open>new Date()\<close>),
  \<open>ws.readyState === ws.OPEN\<close> of each socket, \<open>Database.isConnected()\<close>, the answer
  of the store to \<open>newMessage.save()\<close> (\<open>None\<close> when it raises) and to
  \<open>Message.find()\<close> (the collection, or a raised error).
\<close>

record env =
  now :: nat
  ws_open :: "conn \<Rightarrow> bool"
  Database_isConnected :: bool
  save :: "chat_message \<Rightarrow> chat_message option"
  collection :: "chat_message list"
  find_raises :: bool

text \<open>
  The side effects of a handler, in program order: a frame written to a socket, the two
  store calls, and the push onto \<open>this.messageHistory\<close>.
\<close>

datatype effect =
    Send conn event
  | StoreSave chat_message
  | StoreFind
  | RingPush chat_message

text \<open>
  A handler suspended at an \<open>await\<close> on the store: \<open>handleChatMessage\<close> at line 182,
  holding \<open>messageData\<close>, or \<open>handleUserJoin\<close> at lines 114 to 117, holding \<open>ws\<close> and
  its \<open>clientInfo\<close> object.
\<close>

datatype pending =
    AwaitSave chat_message
  | AwaitFind conn

subsection \<open>The store: backend/models/Message.js\<close>

text \<open>
  The schema trims \<open>username\<close> and \<open>message\<close> when the document is built, and
  \<open>save()\<close> validates \<open>required\<close> (a non-empty string) and \<open>maxlength\<close> on the trimmed
  values. A given \<open>timestamp\<close> is kept. \<open>store_down\<close> is a write that fails for any
  other reason.
\<close>

definition Message_new :: "chat_message \<Rightarrow> chat_message" where
  "Message_new d = d\<lparr>username := trim (username d), message := trim (message d)\<rparr>"

definition Message_valid :: "chat_message \<Rightarrow> bool" where
  "Message_valid d \<longleftrightarrow>
     username d \<noteq> [] \<and> length (username d) \<le> 50 \<and>
     message d \<noteq> [] \<and> length (message d) \<le> 1000"

definition Message_save :: "bool \<Rightarrow> chat_message \<Rightarrow> chat_message option" where
  "Message_save store_down d =
     (if store_down \<or> \<not> Message_valid (Message_new d) then None
      else Some (Message_new d))"

text \<open>
  \<open>Message.find().sort({timestamp: -1}).limit(50).lean()\<close>: the 50 documents with the
  greatest timestamps, newest first.
\<close>

definition Message_find_recent :: "env \<Rightarrow> chat_message list option" where
  "Message_find_recent e =
     (if find_raises e then None
      else Some (take 50 (rev (sort_key timestamp (collection e)))))"

subsection \<open>Sending\<close>

definition sendMessage :: "env \<Rightarrow> conn \<Rightarrow> event \<Rightarrow> effect list" where
  "sendMessage e ws data = (if ws_open e ws then [Send ws data] else [])"

definition sendError :: "env \<Rightarrow> conn \<Rightarrow> string \<Rightarrow> effect list" where
  "sendError e ws err = sendMessage e ws (Error err)"

text \<open>
  \<open>broadcastMessage\<close> visits the entries in order; an open socket gets the frame, any
  other entry is deleted from the map.
\<close>

fun broadcast_loop :: "env \<Rightarrow> event \<Rightarrow> (conn \<times> clientInfo) list \<Rightarrow> manager
    \<Rightarrow> manager \<times> effect list" where
  "broadcast_loop e data [] s = (s, [])"
| "broadcast_loop e data ((ws, ci) # rest) s =
     (if ws_open e ws then
        (let (s', out) = broadcast_loop e data rest s in (s', Send ws data # out))
      else broadcast_loop e data rest (clients_delete ws ci s))"

definition broadcastMessage :: "env \<Rightarrow> manager \<Rightarrow> event \<Rightarrow> manager \<times> effect list" where
  "broadcastMessage e s data = broadcast_loop e data (clients s) s"

subsection \<open>Handlers\<close>

text \<open>
  A handler runs until it returns or reaches an \<open>await\<close> on the store. There it
  suspends, other handlers run, and it resumes when the store has answered. The part up
  to the \<open>await\<close> gives the manager, the effects so far and the suspended rest, if any;
  the part after it is a function of the manager and the environment of that later
  moment.
\<close>

definition handleConnection :: "env \<Rightarrow> manager \<Rightarrow> conn \<Rightarrow> manager \<times> effect list" where
  "handleConnection e s ws =
     (let clientInfo = \<lparr>c_username = ''Anonymous'', connectedAt = now e\<rparr>;
          s1 = s\<lparr>clients := AList.update ws clientInfo (clients s)\<rparr>
      in (s1, sendMessage e ws (Connection ''Connected to chat server'')))"

text \<open>Lines 134 to 143: the history to the joiner, the announcement to all.\<close>

definition handleUserJoin_finish :: "env \<Rightarrow> manager \<Rightarrow> conn \<Rightarrow> clientInfo
    \<Rightarrow> chat_message list \<Rightarrow> manager \<times> effect list" where
  "handleUserJoin_finish e s ws clientInfo history =
     (let t2 = sendMessage e ws (History history);
          (s2, t3) = broadcastMessage e s
             (System (c_username clientInfo @ '' joined the chat'') (now e))
      in (s2, t2 @ t3))"


text \<open>
  Lines 118 to 126 and 134 to 143, once \<open>Message.find()\<close> has answered. The handler
  suspends only for a socket that has its object, so \<open>None\<close> does not occur.
\<close>

definition handleUserJoin_resume :: "env \<Rightarrow> manager \<Rightarrow> conn \<Rightarrow> manager \<times> effect list" where
  "handleUserJoin_resume e s ws =
     (case clientInfo_of s ws of
        None \<Rightarrow> (s, [])
      | Some clientInfo \<Rightarrow>
          let history =
                (case Message_find_recent e of
                   Some recentMessages \<Rightarrow> rev recentMessages
                 | None \<Rightarrow> slice_last 50 (messageHistory s))
          in handleUserJoin_finish e s ws clientInfo history)"

text \<open>Lines 194 to 213: the push, the cut to the last 100, the broadcast.\<close>

definition handleChatMessage_finish :: "env \<Rightarrow> manager \<Rightarrow> chat_message \<Rightarrow> chat_message
    \<Rightarrow> manager \<times> effect list" where
  "handleChatMessage_finish e s messageData savedMessage =
     (let pushed = messageHistory s @ [messageData];
          s1 = s\<lparr>messageHistory :=
                  (if length pushed > 100 then slice_last 100 pushed else pushed)\<rparr>;
          (s2, t3) = broadcastMessage e s1
             (Message (username savedMessage) (message savedMessage) (timestamp savedMessage))
      in (s2, [RingPush messageData] @ t3))"

text \<open>
  Lines 157 to 182 and, when the probe reports disconnected, lines 194 to 213. The
  \<open>TypeError\<close> of \<open>message.trim()\<close> is thrown inside the \<open>try\<close> of line 160, before any
  effect, and caught at line 214.
\<close>

definition handleChatMessage_start :: "env \<Rightarrow> manager \<Rightarrow> conn \<Rightarrow> string option \<Rightarrow> jsval
    \<Rightarrow> manager \<times> effect list \<times> pending option" where
  "handleChatMessage_start e s ws uname msg =
     (case map_of (clients s) ws of
        None \<Rightarrow> (s, [], None)
      | Some clientInfo \<Rightarrow>
          if \<not> truthy msg then (s, sendError e ws ''Message cannot be empty'', None)
          else
            (case js_trim msg of
               None \<Rightarrow> (s, sendError e ws ''Error sending message'', None)
             | Some trimmed \<Rightarrow>
                 if length trimmed = 0 then
                   (s, sendError e ws ''Message cannot be empty'', None)
                 else if length (js_string msg) > 1000 then
                   (s, sendError e ws ''Message too long (max 1000 characters)'', None)
                 else
                   let messageData = \<lparr>username = or_else uname (c_username clientInfo),
                                      message = trimmed,
                                      timestamp = now e\<rparr>
                   in if Database_isConnected e then
                        (s, [StoreSave messageData], Some (AwaitSave messageData))
                      else
                        let (s2, t) = handleChatMessage_finish e s messageData messageData
                        in (s2, t, None)))"

text \<open>
  Lines 182 to 213, once \<open>save()\<close> has answered: the saved document, or \<open>messageData\<close>
  when \<open>save()\<close> raised (the inner \<open>catch\<close> only logs).
\<close>

definition handleChatMessage_resume :: "env \<Rightarrow> manager \<Rightarrow> chat_message
    \<Rightarrow> manager \<times> effect list" where
  "handleChatMessage_resume e s messageData =
     (let savedMessage = (case save e messageData of Some doc \<Rightarrow> doc | None \<Rightarrow> messageData)
      in handleChatMessage_finish e s messageData savedMessage)"

fun resume :: "env \<Rightarrow> manager \<Rightarrow> pending \<Rightarrow> manager \<times> effect list" where
  "resume e s (AwaitSave messageData) = handleChatMessage_resume e s messageData"
| "resume e s (AwaitFind ws) = handleUserJoin_resume e s ws"

text \<open>
  A handler during whose \<open>await\<close> no other handler runs: the store answers in the
  environment the handler started in.
\<close>

definition run_to_completion :: "env \<Rightarrow> manager \<times> effect list \<times> pending option
    \<Rightarrow> manager \<times> effect list" where
  "run_to_completion e r =
     (case r of
        (s1, t1, None) \<Rightarrow> (s1, t1)
      | (s1, t1, Some p) \<Rightarrow> (let (s2, t2) = resume e s1 p in (s2, t1 @ t2)))"


definition handleChatMessage :: "env \<Rightarrow> manager \<Rightarrow> conn \<Rightarrow> string option \<Rightarrow> jsval
    \<Rightarrow> manager \<times> effect list" where
  "handleChatMessage e s ws uname msg =
     run_to_completion e (handleChatMessage_start e s ws uname msg)"

definition handleDisconnection :: "env \<Rightarrow> manager \<Rightarrow> conn \<Rightarrow> manager \<times> effect list" where
  "handleDisconnection e s ws =
     (let uname = or_else (map_option c_username (map_of (clients s) ws)) ''Anonymous'';
          s1 = (case map_of (clients s) ws of
                  None \<Rightarrow> s
                | Some clientInfo \<Rightarrow> clients_delete ws clientInfo s)
      in broadcastMessage e s1 (System (uname @ '' left the chat'') (now e)))"


subsection \<open>The event loop\<close>








subsection \<open>Notions used to state the properties\<close>

text \<open>
  The validation of lines 161 to 169 as one predicate: the body is not a string, is
  empty after trimming, or is longer than 1000 code units as received.
\<close>

definition body_rejected :: "jsval \<Rightarrow> bool" where
  "body_rejected msg =
     (case msg of JStr b \<Rightarrow> trim b = [] \<or> 1000 < length b | _ \<Rightarrow> True)"



text \<open>The record built at lines 171 to 175.\<close>

definition local_record :: "env \<Rightarrow> clientInfo \<Rightarrow> string option \<Rightarrow> jsval
    \<Rightarrow> chat_message" where
  "local_record e ci uname msg =
     \<lparr>username = or_else uname (c_username ci), message = trim (js_string msg),
      timestamp = now e\<rparr>"

text \<open>The record whose fields the broadcast of lines 208 to 213 carries.\<close>

definition saved_record :: "env \<Rightarrow> chat_message \<Rightarrow> chat_message" where
  "saved_record e d =
     (if Database_isConnected e then (case save e d of Some doc \<Rightarrow> doc | None \<Rightarrow> d) else d)"

definition message_event :: "chat_message \<Rightarrow> event" where
  "message_event d = Message (username d) (message d) (timestamp d)"


text \<open>The sockets a broadcast reaches: the registered ones that are open, in map order.\<close>

definition receivers :: "env \<Rightarrow> manager \<Rightarrow> conn list" where
  "receivers e s = filter (ws_open e) (map fst (clients s))"

text \<open>The entries a broadcast deletes from the map, and the objects detached with them.\<close>

definition pruned :: "env \<Rightarrow> manager \<Rightarrow> (conn \<times> clientInfo) list" where
  "pruned e s = filter (\<lambda>p. \<not> ws_open e (fst p)) (clients s)"

definition detach :: "(conn \<times> clientInfo) list \<Rightarrow> (conn \<times> clientInfo) list
    \<Rightarrow> (conn \<times> clientInfo) list" where
  "detach dropped d = fold (\<lambda>p. AList.update (fst p) (snd p)) dropped d"



text \<open>The records pushed onto the ring buffer, in the order of the pushes.\<close>

fun pushed :: "effect list \<Rightarrow> chat_message list" where
  "pushed [] = []"
| "pushed (RingPush m # tr) = m # pushed tr"
| "pushed (x # tr) = pushed tr"

text \<open>The records of the message handlers that wait for \<open>save()\<close>.\<close>

fun saving :: "pending list \<Rightarrow> chat_message list" where
  "saving [] = []"
| "saving (AwaitSave m # ps) = m # saving ps"
| "saving (p # ps) = saving ps"



subsection \<open>Concrete managers and environments\<close>

definition env_offline :: env where
  "env_offline = \<lparr>now = 7, ws_open = (\<lambda>ws. True), Database_isConnected = False,
     save = (\<lambda>d. None), collection = [], find_raises = False\<rparr>"

definition env_online :: env where
  "env_online = \<lparr>now = 7, ws_open = (\<lambda>ws. True), Database_isConnected = True,
     save = Message_save False,
     collection = [\<lparr>username = ''bob'', message = ''second'', timestamp = 5\<rparr>,
                   \<lparr>username = ''alice'', message = ''first'', timestamp = 3\<rparr>],
     find_raises = False\<rparr>"



text \<open>The store disconnected, socket 11 closing, at time 7.\<close>

definition env_closing :: env where
  "env_closing = \<lparr>now = 7, ws_open = (\<lambda>ws. ws \<noteq> 11), Database_isConnected = False,
     save = (\<lambda>d. None), collection = [], find_raises = False\<rparr>"

definition two_clients :: manager where
  "two_clients =
     \<lparr>clients = [(11, \<lparr>c_username = ''alice'', connectedAt = 0\<rparr>),
                 (12, \<lparr>c_username = ''bob'', connectedAt = 0\<rparr>)],
      messageHistory = [], detached = []\<rparr>"






definition long_username :: string where
  "long_username = replicate 51 CHR ''u''"


section \<open>Client: the connection lifecycle of ChatInterface (README.md)\<close>

text \<open>The texts the handlers below pass to \<open>setError\<close>.\<close>

datatype client_error =
    Reconnecting nat nat
  | UnableToConnect
  | FailedToConnect

text \<open>
  The React state \<open>isConnected\<close>, \<open>isConnecting\<close>, \<open>error\<close>, the refs
  \<open>reconnectAttempts\<close> and \<open>reconnectTimeoutRef\<close>, and the host's queue of pending
  reconnect timers, each with its handle and its delay in milliseconds, in the order
  \<open>setTimeout\<close> was called. The timer \<open>connectionTimeout\<close> of a single connect attempt
  is local to it and is not a reconnect timer.
\<close>

record client =
  isConnected :: bool
  isConnecting :: bool
  error :: "client_error option"
  reconnectAttempts :: nat
  reconnectTimeoutRef :: "nat option"
  timers :: "(nat \<times> nat) list"
  next_handle :: nat

definition client_init :: client where
  "client_init = \<lparr>isConnected = False, isConnecting = False, error = None,
     reconnectAttempts = 0, reconnectTimeoutRef = None, timers = [], next_handle = 0\<rparr>"

definition maxReconnectAttempts :: nat where
  "maxReconnectAttempts = 5"

definition clearTimeout :: "nat \<Rightarrow> client \<Rightarrow> client" where
  "clearTimeout h c = c\<lparr>timers := filter (\<lambda>t. fst t \<noteq> h) (timers c)\<rparr>"

text \<open>The body of \<open>connectWebSocket\<close> after its guard: a new socket, connecting.\<close>

definition connect_attempt :: "client \<Rightarrow> client" where
  "connect_attempt c = c\<lparr>isConnecting := True, error := None\<rparr>"

text \<open>
  \<open>connectWebSocket\<close> returns at once when the flags of the render it was created in
  say connecting or connected. Called by the effect or by a click, these are the
  current flags.
\<close>

definition connectWebSocket :: "client \<Rightarrow> client" where
  "connectWebSocket c = (if isConnecting c \<or> isConnected c then c else connect_attempt c)"

definition onopen :: "client \<Rightarrow> client" where
  "onopen c = c\<lparr>isConnected := True, isConnecting := False, error := None,
                reconnectAttempts := 0\<rparr>"

text \<open>\<open>ws.onclose\<close>, with \<open>event.wasClean\<close>.\<close>

definition onclose :: "client \<Rightarrow> bool \<Rightarrow> client" where
  "onclose c wasClean =
     (let c1 = c\<lparr>isConnected := False, isConnecting := False\<rparr>
      in if \<not> wasClean \<and> reconnectAttempts c1 < maxReconnectAttempts then
           let n = reconnectAttempts c1 + 1;
               delay = min (1000 * 2 ^ (n - 1)) 10000;
               h = next_handle c1
           in c1\<lparr>reconnectAttempts := n,
                 error := Some (Reconnecting n maxReconnectAttempts),
                 reconnectTimeoutRef := Some h,
                 timers := timers c1 @ [(h, delay)],
                 next_handle := h + 1\<rparr>
         else if reconnectAttempts c1 \<ge> maxReconnectAttempts then
           c1\<lparr>error := Some UnableToConnect\<rparr>
         else c1)"

definition onerror :: "client \<Rightarrow> client" where
  "onerror c = c\<lparr>error := Some FailedToConnect, isConnecting := False\<rparr>"

text \<open>
  A pending timer fires: the host drops it and runs its callback. The callback calls
  the \<open>connectWebSocket\<close> that opened the socket whose closure scheduled the timer; that
  call passed its own guard, so the flags it holds are both false and it connects
  whatever the current flags are.
\<close>

definition timer_fires :: "nat \<Rightarrow> client \<Rightarrow> client" where
  "timer_fires h c =
     (if h \<in> fst ` set (timers c) then connect_attempt (clearTimeout h c) else c)"

text \<open>
  The cleanup of the effect on \<open>username\<close> clears the timer whose handle the ref holds;
  the \<open>close()\<close> of the socket reaches the state later, as a close event.
\<close>

definition cleanup :: "client \<Rightarrow> client" where
  "cleanup c = (case reconnectTimeoutRef c of Some h \<Rightarrow> clearTimeout h c | None \<Rightarrow> c)"

text \<open>
  The events of a session. The effect on \<open>username\<close> and the Reconnect button, which
  is rendered when the client is neither connected nor connecting, both call
  \<open>connectWebSocket\<close>.
\<close>

datatype client_event =
    EffectRun
  | Opened
  | Closed bool
  | Errored
  | TimerFired nat
  | ClickReconnect
  | EffectCleanup

fun client_step :: "client \<Rightarrow> client_event \<Rightarrow> client" where
  "client_step c EffectRun = connectWebSocket c"
| "client_step c Opened = onopen c"
| "client_step c (Closed wasClean) = onclose c wasClean"
| "client_step c Errored = onerror c"
| "client_step c (TimerFired h) = timer_fires h c"
| "client_step c ClickReconnect = connectWebSocket c"
| "client_step c EffectCleanup = cleanup c"

definition client_run :: "client \<Rightarrow> client_event list \<Rightarrow> client" where
  "client_run c evs = foldl client_step c evs"

section \<open>Properties of the server\<close>

subsection \<open>Sending and broadcasting\<close>

lemma delete_filter: "AList.delete k xs = filter (\<lambda>p. fst p \<noteq> k) xs"
  by (induction xs) auto

lemma fold_delete:
  "fold (\<lambda>p. AList.delete (fst p)) ds xs = filter (\<lambda>p. fst p \<notin> fst ` set ds) xs"
proof (induction ds arbitrary: xs)
  case Nil
  then show ?case by simp
next
  case (Cons d ds)
  have "fold (\<lambda>p. AList.delete (fst p)) (d # ds) xs =
      filter (\<lambda>p. fst p \<notin> fst ` set ds) (filter (\<lambda>p. fst p \<noteq> fst d) xs)"
    by (simp add: Cons.IH delete_filter)
  also have "\<dots> = filter (\<lambda>p. fst p \<notin> fst ` set (d # ds)) xs"
    unfolding filter_filter by (rule filter_cong) auto
  finally show ?case .
qed

lemma fold_delete_closed:
  "fold (\<lambda>p. AList.delete (fst p)) (filter (\<lambda>p. \<not> P (fst p)) xs) xs =
     filter (\<lambda>p. P (fst p)) xs"
  unfolding fold_delete by (rule filter_cong) auto

lemma broadcast_loop_eq:
  "broadcast_loop e d cs s =
     (s\<lparr>clients := fold (\<lambda>p. AList.delete (fst p))
                      (filter (\<lambda>p. \<not> ws_open e (fst p)) cs) (clients s),
        detached := detach (filter (\<lambda>p. \<not> ws_open e (fst p)) cs) (detached s)\<rparr>,
      map (\<lambda>p. Send (fst p) d) (filter (\<lambda>p. ws_open e (fst p)) cs))"
proof (induction cs arbitrary: s)
  case Nil
  then show ?case by (simp add: detach_def)
next
  case (Cons c cs)
  then show ?case
    by (cases c) (simp add: detach_def clients_delete_def)
qed

lemma broadcastMessage_eq:
  "broadcastMessage e s d =
     (s\<lparr>clients := filter (\<lambda>p. ws_open e (fst p)) (clients s),
        detached := detach (pruned e s) (detached s)\<rparr>,
      map (\<lambda>c. Send c d) (receivers e s))"
  by (simp add: broadcastMessage_def broadcast_loop_eq fold_delete_closed receivers_def
      pruned_def filter_map comp_def)


lemma slice_last_short: "length xs \<le> n \<Longrightarrow> slice_last n xs = xs"
  by (simp add: slice_last_def)

subsection \<open>Strings and the concrete inputs\<close>

lemma trim_Nil: "trim [] = []"
  by (simp add: trim_def)



lemma map_of_two_clients:
  "map_of (clients two_clients) 11 = Some \<lparr>c_username = ''alice'', connectedAt = 0\<rparr>"
  by (simp add: two_clients_def)

lemma receivers_two_clients:
  "receivers env_offline two_clients = [11, 12]" "receivers env_online two_clients = [11, 12]"
  by (simp_all add: receivers_def env_offline_def env_online_def two_clients_def)

lemma pruned_two_clients:
  "pruned env_offline two_clients = []" "pruned env_online two_clients = []"
  by (simp_all add: pruned_def env_offline_def env_online_def)

lemma ws_open_examples: "ws_open env_offline ws" "ws_open env_online ws"
  by (simp_all add: env_offline_def env_online_def)

subsection \<open>The message handler\<close>



lemma handleChatMessage_finish_eq:
  "handleChatMessage_finish e s md sm =
     (s\<lparr>clients := filter (\<lambda>p. ws_open e (fst p)) (clients s),
        messageHistory := slice_last 100 (messageHistory s @ [md]),
        detached := detach (pruned e s) (detached s)\<rparr>,
      RingPush md # map (\<lambda>c. Send c (message_event sm)) (receivers e s))"
  by (auto simp: handleChatMessage_finish_def broadcastMessage_eq message_event_def
      receivers_def pruned_def slice_last_short Let_def)

lemma not_rejected_JStr:
  assumes "\<not> body_rejected msg"
  obtains b where "msg = JStr b" and "b \<noteq> []" and "trim b \<noteq> []" and "length b \<le> 1000"
proof (cases msg)
  case (JStr b)
  with assms have "trim b \<noteq> []" and "length b \<le> 1000"
    by (simp_all add: body_rejected_def)
  moreover from this have "b \<noteq> []" by (auto simp: trim_Nil)
  ultimately show ?thesis using JStr that by blast
qed (use assms in \<open>simp_all add: body_rejected_def\<close>)

lemma handleChatMessage_start_accepted:
  assumes "map_of (clients s) ws = Some ci" and "\<not> body_rejected msg"
  shows "handleChatMessage_start e s ws uname msg =
           (if Database_isConnected e
            then (s, [StoreSave (local_record e ci uname msg)],
                  Some (AwaitSave (local_record e ci uname msg)))
            else (fst (handleChatMessage_finish e s (local_record e ci uname msg)
                         (local_record e ci uname msg)),
                  snd (handleChatMessage_finish e s (local_record e ci uname msg)
                         (local_record e ci uname msg)), None))"
proof -
  from assms(2) obtain b where "msg = JStr b" "b \<noteq> []" "trim b \<noteq> []" "length b \<le> 1000"
    by (rule not_rejected_JStr)
  with assms(1) show ?thesis
    by (simp add: handleChatMessage_start_def local_record_def Let_def split: prod.splits)
qed

lemma handleChatMessage_accepted:
  assumes "map_of (clients s) ws = Some ci" and "\<not> body_rejected msg"
  shows "handleChatMessage e s ws uname msg =
           (s\<lparr>clients := filter (\<lambda>p. ws_open e (fst p)) (clients s),
              messageHistory := slice_last 100 (messageHistory s @ [local_record e ci uname msg]),
              detached := detach (pruned e s) (detached s)\<rparr>,
            (if Database_isConnected e then [StoreSave (local_record e ci uname msg)] else [])
            @ [RingPush (local_record e ci uname msg)]
            @ map (\<lambda>c. Send c (message_event (saved_record e (local_record e ci uname msg))))
                (receivers e s))"
  by (simp add: handleChatMessage_def run_to_completion_def
      handleChatMessage_start_accepted [OF assms] handleChatMessage_resume_def
      handleChatMessage_finish_eq saved_record_def)







lemma not_rejected_hi: "\<not> body_rejected (JStr ''hi'')"
  by (simp add: body_rejected_def trim_def is_space_def)


lemma online_connected: "Database_isConnected env_online"
  by (simp add: env_online_def)




lemma last_slice_last_snoc: "0 < n \<Longrightarrow> last (slice_last n (xs @ [x])) = x"
  by (simp add: slice_last_def)

lemma message_event_inject:
  "message_event a = message_event b \<longleftrightarrow> a = (b :: chat_message)"
  by (cases a, cases b) (auto simp: message_event_def)

text \<open>
  C10. For an accepted message frame the entry appended to the ring buffer is the locally
  built record (the frame's username or else the session's name, the trimmed body, the
  server's clock), whatever the store answers. Every event of the broadcast carries the
  fields of the record \<open>save\<close> returned, when it returned one; so when the store is
  connected and returns a record that differs from the local one, the payload of the
  broadcast differs from the entry of the ring buffer for the same message.
\<close>

theorem ring_buffer_keeps_local_record:
  assumes "map_of (clients s) ws = Some ci" and "\<not> body_rejected msg"
  shows "last (messageHistory (fst (handleChatMessage e s ws uname msg))) =
           \<lparr>username = or_else uname (c_username ci), message = trim (js_string msg),
            timestamp = now e\<rparr>
       \<and> (\<forall>c ev. Send c ev \<in> set (snd (handleChatMessage e s ws uname msg)) \<longrightarrow>
             ev = message_event (saved_record e (local_record e ci uname msg)))
       \<and> (\<forall>doc. Database_isConnected e \<and> save e (local_record e ci uname msg) = Some doc
               \<and> doc \<noteq> local_record e ci uname msg \<longrightarrow>
             (\<forall>c ev. Send c ev \<in> set (snd (handleChatMessage e s ws uname msg)) \<longrightarrow>
                ev = message_event doc \<and>
                ev \<noteq> message_event
                       (last (messageHistory (fst (handleChatMessage e s ws uname msg))))))"
proof -
  note acc = handleChatMessage_accepted [OF assms, of e uname]
  have l: "last (messageHistory (fst (handleChatMessage e s ws uname msg))) =
      local_record e ci uname msg"
    by (simp add: acc last_slice_last_snoc)
  have b: "ev = message_event (saved_record e (local_record e ci uname msg))"
    if "Send c ev \<in> set (snd (handleChatMessage e s ws uname msg))" for c ev
    using that by (auto simp: acc split: if_splits)
  have d: "saved_record e (local_record e ci uname msg) = doc"
    if "Database_isConnected e" "save e (local_record e ci uname msg) = Some doc" for doc
    using that by (simp add: saved_record_def)
  have c: "ev = message_event doc \<and>
      ev \<noteq> message_event (last (messageHistory (fst (handleChatMessage e s ws uname msg))))"
    if "Database_isConnected e" "save e (local_record e ci uname msg) = Some doc"
      "doc \<noteq> local_record e ci uname msg"
      "Send c ev \<in> set (snd (handleChatMessage e s ws uname msg))" for doc c ev
    using that b [of c ev] d [of doc] by (simp add: l message_event_inject)
  have l': "last (messageHistory (fst (handleChatMessage e s ws uname msg))) =
           \<lparr>username = or_else uname (c_username ci), message = trim (js_string msg),
            timestamp = now e\<rparr>"
    using l by (simp add: local_record_def)
  from b c show ?thesis
    unfolding l' [symmetric] by blast
qed

lemma bob_record:
  "local_record env_online \<lparr>c_username = ''alice'', connectedAt = 0\<rparr> (Some '' bob '') (JStr ''hi'')
     = \<lparr>username = '' bob '', message = ''hi'', timestamp = 7\<rparr>"
  by (simp add: local_record_def or_else_def trim_def is_space_def env_online_def)

lemma save_online_bob:
  "save env_online \<lparr>username = '' bob '', message = ''hi'', timestamp = 7\<rparr>
     = Some \<lparr>username = ''bob'', message = ''hi'', timestamp = 7\<rparr>"
  by (simp add: env_online_def Message_save_def Message_new_def Message_valid_def trim_def
      is_space_def)

lemma handle_bob_online:
  "handleChatMessage env_online two_clients 11 (Some '' bob '') (JStr ''hi'') =
     (two_clients\<lparr>messageHistory := [\<lparr>username = '' bob '', message = ''hi'', timestamp = 7\<rparr>]\<rparr>,
      [StoreSave \<lparr>username = '' bob '', message = ''hi'', timestamp = 7\<rparr>,
       RingPush \<lparr>username = '' bob '', message = ''hi'', timestamp = 7\<rparr>,
       Send 11 (Message ''bob'' ''hi'' 7), Send 12 (Message ''bob'' ''hi'' 7)])"
  using handleChatMessage_accepted [OF map_of_two_clients not_rejected_hi, of env_online "Some '' bob ''"]
  by (simp add: bob_record online_connected saved_record_def save_online_bob message_event_def
      receivers_two_clients pruned_two_clients detach_def slice_last_def)
     (simp add: two_clients_def env_online_def)

theorem ring_buffer_keeps_local_record_witness:
  "map_of (clients two_clients) 11 = Some \<lparr>c_username = ''alice'', connectedAt = 0\<rparr>
   \<and> \<not> body_rejected (JStr ''hi'')
   \<and> Database_isConnected env_online
   \<and> save env_online \<lparr>username = '' bob '', message = ''hi'', timestamp = 7\<rparr>
       = Some \<lparr>username = ''bob'', message = ''hi'', timestamp = 7\<rparr>
   \<and> Send 12 (Message ''bob'' ''hi'' 7)
       \<in> set (snd (handleChatMessage env_online two_clients 11 (Some '' bob '') (JStr ''hi'')))
   \<and> last (messageHistory
        (fst (handleChatMessage env_online two_clients 11 (Some '' bob '') (JStr ''hi''))))
       = \<lparr>username = '' bob '', message = ''hi'', timestamp = 7\<rparr>
   \<and> Message ''bob'' ''hi'' 7 \<noteq> message_event (last (messageHistory
        (fst (handleChatMessage env_online two_clients 11 (Some '' bob '') (JStr ''hi'')))))"
proof -
  note t = ring_buffer_keeps_local_record [OF map_of_two_clients not_rejected_hi,
      of env_online "Some '' bob ''", unfolded bob_record]
  have snd12: "Send 12 (Message ''bob'' ''hi'' 7)
       \<in> set (snd (handleChatMessage env_online two_clients 11 (Some '' bob '') (JStr ''hi'')))"
    by (simp add: handle_bob_online)
  have ne: "\<lparr>username = ''bob'', message = ''hi'', timestamp = 7\<rparr>
      \<noteq> \<lparr>username = '' bob '', message = ''hi'', timestamp = 7\<rparr>"
    by simp
  from t online_connected save_online_bob ne snd12
  have "Message ''bob'' ''hi'' 7 \<noteq> message_event (last (messageHistory
        (fst (handleChatMessage env_online two_clients 11 (Some '' bob '') (JStr ''hi'')))))"
    by blast
  moreover from t have "last (messageHistory
        (fst (handleChatMessage env_online two_clients 11 (Some '' bob '') (JStr ''hi''))))
       = \<lparr>username = '' bob '', message = ''hi'', timestamp = 7\<rparr>"
    by (simp add: or_else_def trim_def is_space_def env_online_def)
  ultimately show ?thesis
    using snd12 by (simp add: map_of_two_clients not_rejected_hi online_connected save_online_bob)
qed

lemma long_record:
  "local_record env_online \<lparr>c_username = ''alice'', connectedAt = 0\<rparr> (Some long_username)
     (JStr ''hi'') = \<lparr>username = long_username, message = ''hi'', timestamp = 7\<rparr>"
  by (simp add: local_record_def or_else_def trim_def is_space_def env_online_def
      long_username_def)

lemma trim_long_username: "trim long_username = long_username"
  by (simp add: trim_def long_username_def dropWhile_replicate is_space_def
           del: replicate_Suc replicate.simps)

lemma save_online_long:
  "save env_online \<lparr>username = long_username, message = ''hi'', timestamp = 7\<rparr> = None"
  by (simp add: env_online_def Message_save_def Message_new_def Message_valid_def
      trim_long_username)
     (simp add: long_username_def)

text \<open>
  C9. The handlers never test the length of a username. A message frame whose username
  has 51 characters after trimming is accepted: the store refuses the record, since the
  schema limits the username to 50 characters, and the handler still pushes the record
  onto the ring buffer and broadcasts it under that name.
\<close>

theorem long_username_broadcast:
  "length (trim long_username) = 51
   \<and> save env_online \<lparr>username = long_username, message = ''hi'', timestamp = 7\<rparr> = None
   \<and> handleChatMessage env_online two_clients 11 (Some long_username) (JStr ''hi'') =
     (two_clients\<lparr>messageHistory :=
        [\<lparr>username = long_username, message = ''hi'', timestamp = 7\<rparr>]\<rparr>,
      [StoreSave \<lparr>username = long_username, message = ''hi'', timestamp = 7\<rparr>,
       RingPush \<lparr>username = long_username, message = ''hi'', timestamp = 7\<rparr>,
       Send 11 (Message long_username ''hi'' 7), Send 12 (Message long_username ''hi'' 7)])"
proof -
  have "length (trim long_username) = 51"
    by (simp add: trim_long_username) (simp add: long_username_def)
  moreover have "handleChatMessage env_online two_clients 11 (Some long_username) (JStr ''hi'') =
     (two_clients\<lparr>messageHistory :=
        [\<lparr>username = long_username, message = ''hi'', timestamp = 7\<rparr>]\<rparr>,
      [StoreSave \<lparr>username = long_username, message = ''hi'', timestamp = 7\<rparr>,
       RingPush \<lparr>username = long_username, message = ''hi'', timestamp = 7\<rparr>,
       Send 11 (Message long_username ''hi'' 7), Send 12 (Message long_username ''hi'' 7)])"
    using handleChatMessage_accepted [OF map_of_two_clients not_rejected_hi,
        of env_online "Some long_username"]
    by (simp add: long_record online_connected saved_record_def save_online_long
        message_event_def receivers_two_clients pruned_two_clients detach_def slice_last_def)
       (simp add: two_clients_def env_online_def)
  ultimately show ?thesis
    by (simp add: save_online_long)
qed

subsection \<open>The join handler\<close>
















subsection \<open>Two saves answered out of order\<close>









subsection \<open>Disconnection\<close>

lemma count_list_sends:
  "distinct cs \<Longrightarrow>
     count_list (map (\<lambda>c. Send c ev) cs) (Send c ev) = (if c \<in> set cs then 1 else 0)"
  by (induction cs) auto

lemma handleDisconnection_eq:
  "snd (handleDisconnection e s ws) =
     map (\<lambda>c. Send c
            (System (or_else (map_option c_username (map_of (clients s) ws)) ''Anonymous''
                      @ '' left the chat'') (now e)))
       (filter (ws_open e) (removeAll ws (map fst (clients s))))"
  "clients (fst (handleDisconnection e s ws)) =
     filter (\<lambda>p. ws_open e (fst p)) (AList.delete ws (clients s))"
  "messageHistory (fst (handleDisconnection e s ws)) = messageHistory s"
proof -
  have k: "map_of (clients s) ws = None \<Longrightarrow> AList.delete ws (clients s) = clients s"
    by (simp add: map_of_eq_None_iff)
  show "snd (handleDisconnection e s ws) =
     map (\<lambda>c. Send c
            (System (or_else (map_option c_username (map_of (clients s) ws)) ''Anonymous''
                      @ '' left the chat'') (now e)))
       (filter (ws_open e) (removeAll ws (map fst (clients s))))"
    by (cases "map_of (clients s) ws")
       (simp_all add: handleDisconnection_def broadcastMessage_eq receivers_def
          clients_delete_def delete_keys [symmetric] k Let_def)
  show "clients (fst (handleDisconnection e s ws)) =
     filter (\<lambda>p. ws_open e (fst p)) (AList.delete ws (clients s))"
    by (cases "map_of (clients s) ws")
       (simp_all add: handleDisconnection_def broadcastMessage_eq clients_delete_def k Let_def)
  show "messageHistory (fst (handleDisconnection e s ws)) = messageHistory s"
    by (cases "map_of (clients s) ws")
       (simp_all add: handleDisconnection_def broadcastMessage_eq clients_delete_def Let_def)
qed

lemma handleConnection_registers:
  "map_of (clients (fst (handleConnection e s ws))) ws =
     Some \<lparr>c_username = ''Anonymous'', connectedAt = now e\<rparr>"
  by (simp add: handleConnection_def update_conv')

text \<open>
  What a close or error signal does for a connection that is registered: the entry is
  removed, then one leave event with the session's name goes to every other registered
  connection whose socket is open, exactly once, and never to the disconnecting one.
\<close>

lemma handleDisconnection_registered:
  assumes "distinct (map fst (clients s))" and "map_of (clients s) ws = Some ci"
  shows "snd (handleDisconnection e s ws) =
           map (\<lambda>c. Send c (System ((if c_username ci = [] then ''Anonymous'' else c_username ci)
                                     @ '' left the chat'') (now e)))
             (filter (ws_open e) (removeAll ws (map fst (clients s))))
       \<and> (\<forall>c. count_list (snd (handleDisconnection e s ws))
               (Send c (System ((if c_username ci = [] then ''Anonymous'' else c_username ci)
                                     @ '' left the chat'') (now e))) =
              (if c \<noteq> ws \<and> c \<in> fst ` set (clients s) \<and> ws_open e c then 1 else 0))
       \<and> ws \<notin> fst ` set (clients (fst (handleDisconnection e s ws)))
       \<and> (\<forall>c ev. Send c ev \<in> set (snd (handleDisconnection e s ws)) \<longrightarrow> c \<noteq> ws)"
proof -
  let ?name = "if c_username ci = [] then ''Anonymous'' else c_username ci"
  let ?ev = "System (?name @ '' left the chat'') (now e)"
  let ?rest = "filter (ws_open e) (removeAll ws (map fst (clients s)))"
  have tr: "snd (handleDisconnection e s ws) = map (\<lambda>c. Send c ?ev) ?rest"
    using assms(2) by (simp add: handleDisconnection_eq or_else_def)
  have d: "distinct ?rest"
    using assms(1) by (simp add: distinct_removeAll)
  have cnt: "count_list (snd (handleDisconnection e s ws)) (Send c ?ev) =
      (if c \<noteq> ws \<and> c \<in> fst ` set (clients s) \<and> ws_open e c then 1 else 0)" for c
    unfolding tr count_list_sends [OF d] by auto
  have gone: "ws \<notin> fst ` set (clients (fst (handleDisconnection e s ws)))"
    by (auto simp: handleDisconnection_eq AList.delete_eq)
  have nosend: "c \<noteq> ws" if "Send c ev \<in> set (snd (handleDisconnection e s ws))" for c ev
    using that unfolding tr by auto
  from tr cnt gone nosend show ?thesis
    by blast
qed

lemma disconnect_alice:
  "snd (handleDisconnection env_offline two_clients 11) =
     [Send 12 (System ''alice left the chat'' 7)]"
  "clients (fst (handleDisconnection env_offline two_clients 11)) =
     [(12, \<lparr>c_username = ''bob'', connectedAt = 0\<rparr>)]"
  by (simp_all add: handleDisconnection_eq or_else_def two_clients_def env_offline_def)

lemma pruned_alice:
  "clients (fst (handleChatMessage env_closing two_clients 12 None (JStr ''hi''))) =
     [(12, \<lparr>c_username = ''bob'', connectedAt = 0\<rparr>)]"
proof -
  have reg: "map_of (clients two_clients) 12 = Some \<lparr>c_username = ''bob'', connectedAt = 0\<rparr>"
    by (simp add: two_clients_def)
  show ?thesis
    by (simp add: handleChatMessage_accepted [OF reg not_rejected_hi])
       (simp add: two_clients_def env_closing_def)
qed

text \<open>
  C3. \<open>handleDisconnection\<close> does not return when the connection has no entry, as the
  other two handlers do. The socket of \<open>alice\<close> fails: the library signals \<open>error\<close> and
  then \<open>close\<close>, the first call announces that alice left, and the second finds no
  entry and announces that Anonymous left. The same happens to a joined connection whose
  entry a broadcast has deleted, because its socket was no longer open, before its
  \<open>close\<close> signal arrives: the only announcement names Anonymous.
\<close>

theorem repeated_disconnect_announces_anonymous:
  "snd (handleDisconnection env_offline two_clients 11) =
     [Send 12 (System ''alice left the chat'' 7)]
   \<and> snd (handleDisconnection env_offline
            (fst (handleDisconnection env_offline two_clients 11)) 11) =
     [Send 12 (System ''Anonymous left the chat'' 7)]
   \<and> map_of (clients (fst (handleChatMessage env_closing two_clients 12 None (JStr ''hi'')))) 11
       = None
   \<and> snd (handleDisconnection env_offline
            (fst (handleChatMessage env_closing two_clients 12 None (JStr ''hi''))) 11) =
     [Send 12 (System ''Anonymous left the chat'' 7)]"
  by (simp add: disconnect_alice(1) handleDisconnection_eq(1) [of env_offline "fst x" for x]
      disconnect_alice(2) pruned_alice or_else_def ws_open_examples)
     (simp add: env_offline_def)

subsection \<open>The ring buffer over the event loop\<close>






lemma saving_Cons: "saving (p # ps) = saving [p] @ saving ps"
  by (cases p) simp_all











section \<open>Properties of the client\<close>

lemma onclose_unclean:
  assumes "reconnectAttempts c < 5"
  shows "timers (onclose c False) =
           timers c @ [(next_handle c, min (1000 * 2 ^ reconnectAttempts c) 10000)]"
    and "reconnectAttempts (onclose c False) = Suc (reconnectAttempts c)"
    and "next_handle (onclose c False) = Suc (next_handle c)"
    and "reconnectTimeoutRef (onclose c False) = Some (next_handle c)"
    and "isConnected (onclose c False) = False" and "isConnecting (onclose c False) = False"
  using assms by (simp_all add: onclose_def maxReconnectAttempts_def Let_def)

lemma onclose_exhausted:
  "5 \<le> reconnectAttempts c \<Longrightarrow> timers (onclose c w) = timers c"
  by (simp add: onclose_def maxReconnectAttempts_def Let_def)

lemma onclose_clean: "timers (onclose c True) = timers c"
  by (simp add: onclose_def Let_def)

lemma reconnectAttempts_connectWebSocket:
  "reconnectAttempts (connectWebSocket c) = reconnectAttempts c"
  "timers (connectWebSocket c) = timers c"
  "next_handle (connectWebSocket c) = next_handle c"
  by (simp_all add: connectWebSocket_def connect_attempt_def)

text \<open>
  C7. From a client whose attempt counter is 0, five unclean closures in a row schedule
  five reconnect timers, with delays of 1000, 2000, 4000, 8000 and 10000 ms: the fifth,
  16000 ms by doubling, is capped. A sixth unclean closure schedules nothing, and a clean
  closure never schedules a timer.
\<close>

theorem reconnect_backoff:
  assumes "reconnectAttempts c = 0"
  shows "map snd (timers (client_run c
             [Closed False, Closed False, Closed False, Closed False, Closed False])) =
           map snd (timers c) @ [1000, 2000, 4000, 8000, 10000]
       \<and> timers (client_run c
             [Closed False, Closed False, Closed False, Closed False, Closed False, Closed False]) =
           timers (client_run c
             [Closed False, Closed False, Closed False, Closed False, Closed False])
       \<and> (\<forall>c'. timers (onclose c' True) = timers c')"
proof -
  define c1 where "c1 = onclose c False"
  define c2 where "c2 = onclose c1 False"
  define c3 where "c3 = onclose c2 False"
  define c4 where "c4 = onclose c3 False"
  define c5 where "c5 = onclose c4 False"
  have a1: "reconnectAttempts c1 = 1" and t1: "map snd (timers c1) = map snd (timers c) @ [1000]"
    using assms by (simp_all add: c1_def onclose_unclean)
  have a2: "reconnectAttempts c2 = 2"
    and t2: "map snd (timers c2) = map snd (timers c) @ [1000, 2000]"
    using a1 t1 by (simp_all add: c2_def onclose_unclean)
  have a3: "reconnectAttempts c3 = 3"
    and t3: "map snd (timers c3) = map snd (timers c) @ [1000, 2000, 4000]"
    using a2 t2 by (simp_all add: c3_def onclose_unclean)
  have a4: "reconnectAttempts c4 = 4"
    and t4: "map snd (timers c4) = map snd (timers c) @ [1000, 2000, 4000, 8000]"
    using a3 t3 by (simp_all add: c4_def onclose_unclean)
  have a5: "reconnectAttempts c5 = 5"
    and t5: "map snd (timers c5) = map snd (timers c) @ [1000, 2000, 4000, 8000, 10000]"
    using a4 t4 by (simp_all add: c5_def onclose_unclean)
  have r5: "client_run c [Closed False, Closed False, Closed False, Closed False, Closed False]
      = c5"
    by (simp add: client_run_def c1_def c2_def c3_def c4_def c5_def)
  have r6: "client_run c
      [Closed False, Closed False, Closed False, Closed False, Closed False, Closed False]
      = onclose c5 False"
    by (simp add: client_run_def c1_def c2_def c3_def c4_def c5_def)
  show ?thesis
    unfolding r5 r6 using t5 a5 by (simp add: onclose_exhausted onclose_clean)
qed

theorem reconnect_backoff_witness:
  "reconnectAttempts client_init = 0
   \<and> timers (client_run client_init
        [Closed False, Closed False, Closed False, Closed False, Closed False]) =
      [(0, 1000), (1, 2000), (2, 4000), (3, 8000), (4, 10000)]
   \<and> timers (client_run client_init
        [Closed False, Closed False, Closed False, Closed False, Closed False, Closed False]) =
      [(0, 1000), (1, 2000), (2, 4000), (3, 8000), (4, 10000)]"
proof -
  have a: "reconnectAttempts client_init = 0"
    by (simp add: client_init_def)
  have t: "timers (client_run client_init
        [Closed False, Closed False, Closed False, Closed False, Closed False]) =
      [(0, 1000), (1, 2000), (2, 4000), (3, 8000), (4, 10000)]"
    by (simp add: client_run_def client_init_def onclose_def maxReconnectAttempts_def Let_def)
  from reconnect_backoff [OF a, THEN conjunct2, THEN conjunct1] show ?thesis
    by (simp only: a t simp_thms)
qed

text \<open>
  The same delays when each timer fires and reconnects before the next closure: one
  timer is pending after each of the five closures, none after the sixth.
\<close>

lemma reconnect_chain:
  "timers (client_run client_init
     [EffectRun, Closed False, TimerFired 0, Closed False, TimerFired 1, Closed False,
      TimerFired 2, Closed False, TimerFired 3, Closed False]) = [(4, 10000)]
   \<and> timers (client_run client_init
     [EffectRun, Closed False, TimerFired 0, Closed False, TimerFired 1, Closed False,
      TimerFired 2, Closed False, TimerFired 3, Closed False, TimerFired 4, Closed False]) = []
   \<and> error (client_run client_init
     [EffectRun, Closed False, TimerFired 0, Closed False, TimerFired 1, Closed False,
      TimerFired 2, Closed False, TimerFired 3, Closed False, TimerFired 4, Closed False])
       = Some UnableToConnect"
  by (simp add: client_run_def client_init_def onclose_def connectWebSocket_def timer_fires_def
      connect_attempt_def clearTimeout_def maxReconnectAttempts_def Let_def)

text \<open>
  C8. \<open>ws.onclose\<close> stores the handle of the new timer in \<open>reconnectTimeoutRef\<close>
  without clearing the timer the ref held. After an unclean closure a timer is pending
  and the Reconnect button is shown; a click connects again, and when that socket closes
  uncleanly before the first timer fires, a second timer is scheduled: two reconnect
  timers are pending, and the cleanup of the effect clears only the one the ref holds.
\<close>

theorem duplicate_reconnect_timers:
  "timers (client_run client_init [EffectRun, Closed False]) = [(0, 1000)]
   \<and> isConnected (client_run client_init [EffectRun, Closed False]) = False
   \<and> isConnecting (client_run client_init [EffectRun, Closed False]) = False
   \<and> timers (client_run client_init [EffectRun, Closed False, ClickReconnect, Closed False]) =
       [(0, 1000), (1, 2000)]
   \<and> reconnectTimeoutRef
        (client_run client_init [EffectRun, Closed False, ClickReconnect, Closed False]) = Some 1
   \<and> timers (client_run client_init
        [EffectRun, Closed False, ClickReconnect, Closed False, EffectCleanup]) = [(0, 1000)]"
  by (simp add: client_run_def client_init_def onclose_def connectWebSocket_def cleanup_def
      connect_attempt_def clearTimeout_def maxReconnectAttempts_def Let_def)

end
